theory Spec2Isabelle
  imports Complex_Main "HOL-Library.Sublist" "HOL-Library.Signed_Division"
begin

section \<open>GeoHunt: the progress and unlock engine\<close>

text \<open>
  A shallow embedding of the game logic of the GeoHunt repository: the Mongoose models
  \<^verbatim>\<open>Treasure\<close> and \<^verbatim>\<open>UserProgress\<close> with the methods \<^verbatim>\<open>calculateLevel\<close> and
  \<^verbatim>\<open>checkBadges\<close>, the controllers \<^verbatim>\<open>getProgress\<close>, \<^verbatim>\<open>unlockTreasure\<close> and
  \<^verbatim>\<open>resetUserProgress\<close>, and on the client the distance gate, the QR scanner's
  classification of a decoded frame and the experience bar.

  Conventions. A JavaScript \<^verbatim>\<open>Number\<close> holding a point total is an \<^typ>\<open>int\<close>. A
  coordinate is a \<^typ>\<open>real\<close>; the distance functions take the arithmetic of the
  engine as a parameter, round after every operation and yield \<^verbatim>\<open>NaN\<close> where the
  code does. An \<^verbatim>\<open>ObjectId\<close> is the text of its hexadecimal
  form. A handler takes the database and returns the database it leaves behind together
  with its HTTP answer; the driver's own failures (lost connection, an identifier that
  does not parse) are outside the model.
\<close>

subsection \<open>Documents\<close>

type_synonym object_id = string

datatype category = academic | social | sports | history

text \<open>\<^verbatim>\<open>TreasureSchema\<close> (without the optional trivia text and the creation date).\<close>

record treasure =
  treasure_id :: object_id
  name :: string
  description :: string
  clue :: string
  latitude :: real
  longitude :: real
  points :: int
  category :: category

text \<open>\<^verbatim>\<open>UserProgressSchema\<close>. \<open>updatedAt\<close> is a clock reading in milliseconds.\<close>

record user_progress =
  user :: object_id
  unlockedTreasures :: "object_id list"
  totalPoints :: int
  badges :: "string list"
  level :: int
  missionBriefing :: "string option"
  updatedAt :: nat

text \<open>
  The two collections. \<^verbatim>\<open>UserProgress\<close> has a unique index on \<open>user\<close>, so it is a map
  from the user's identifier to the one document of that user.
\<close>

record database =
  treasures :: "treasure list"
  progress :: "object_id \<rightharpoonup> user_progress"

subsection \<open>\<^verbatim>\<open>calculateLevel\<close>\<close>

text \<open>
  \<^verbatim>\<open>this.level = Math.floor(this.totalPoints / 200) + 1; return this.level;\<close>
  The division is the division of numbers, followed by \<^verbatim>\<open>Math.floor\<close>. The method
  updates the document; its return value is the \<open>level\<close> field of the result.
\<close>

definition calculateLevel :: "user_progress \<Rightarrow> user_progress" where
  "calculateLevel p = p\<lparr>level := \<lfloor>real_of_int (totalPoints p) / 200\<rfloor> + 1\<rparr>"

subsection \<open>Queries on the treasure collection\<close>

text \<open>\<^verbatim>\<open>Treasure.findById(id)\<close>: the document with that \<^verbatim>\<open>_id\<close>, or \<^verbatim>\<open>null\<close>.\<close>

definition findById :: "treasure list \<Rightarrow> object_id \<Rightarrow> treasure option" where
  "findById ts i = find (\<lambda>t. treasure_id t = i) ts"

text \<open>\<^verbatim>\<open>Treasure.find({ category: c })\<close>.\<close>

definition findByCategory :: "treasure list \<Rightarrow> category \<Rightarrow> treasure list" where
  "findByCategory ts c = filter (\<lambda>t. category t = c) ts"

text \<open>
  \<^verbatim>\<open>populate('unlockedTreasures')\<close>: each identifier is replaced by its document; an
  identifier with no document is dropped from the populated array.
\<close>

definition populate :: "treasure list \<Rightarrow> object_id list \<Rightarrow> treasure list" where
  "populate ts ids = List.map_filter (findById ts) ids"

subsection \<open>\<^verbatim>\<open>checkBadges\<close>\<close>

text \<open>
  The method reads the three queries from the treasure collection and pushes a badge
  identifier when its criterion holds and the identifier is not in \<open>badges\<close> yet. The
  four blocks run in the order of the source, each on the document the previous left.
\<close>

definition checkBadges :: "treasure list \<Rightarrow> user_progress \<Rightarrow> user_progress" where
  "checkBadges ts p0 =
    (let p1 = (if 1 \<le> length (unlockedTreasures p0) \<and> ''explorer'' \<notin> set (badges p0)
               then p0\<lparr>badges := badges p0 @ [''explorer'']\<rparr> else p0);
         academicTreasures = findByCategory ts academic;
         academicIds = map treasure_id academicTreasures;
         unlockedIds = unlockedTreasures p1;
         hasAllAcademic = list_all (\<lambda>i. i \<in> set unlockedIds) academicIds;
         p2 = (if hasAllAcademic \<and> 0 < length academicTreasures \<and> ''scholar'' \<notin> set (badges p1)
               then p1\<lparr>badges := badges p1 @ [''scholar'']\<rparr> else p1);
         socialTreasures = findByCategory ts social;
         hasSocial = list_ex (\<lambda>t. treasure_id t \<in> set unlockedIds) socialTreasures;
         p3 = (if hasSocial \<and> ''socialite'' \<notin> set (badges p2)
               then p2\<lparr>badges := badges p2 @ [''socialite'']\<rparr> else p2);
         allTreasures = ts;
         p4 = (if length (unlockedTreasures p3) = length allTreasures \<and> 0 < length allTreasures
                  \<and> ''master'' \<notin> set (badges p3)
               then p3\<lparr>badges := badges p3 @ [''master'']\<rparr> else p3)
     in p4)"

subsection \<open>HTTP answers\<close>

datatype error = HttpError (status: nat) (error_text: string)

text \<open>
  The body of a successful answer: the progress document, the treasures its
  \<open>unlockedTreasures\<close> was populated with (empty where the handler does not populate),
  and the message when the handler sends one.
\<close>

record reply =
  data :: user_progress
  populated :: "treasure list"
  message :: "string option"

text \<open>The text of a number that holds an integer, as a template literal prints it.\<close>

function decimal :: "nat \<Rightarrow> string" where
  "decimal n =
     (let d = ''0123456789'' ! (n mod 10)
      in if n div 10 = 0 then [d] else decimal (n div 10) @ [d])"
  by pat_completeness auto
termination
  by (relation "measure (\<lambda>n. n)") auto

definition number_text :: "int \<Rightarrow> string" where
  "number_text i = (if 0 \<le> i then decimal (nat i) else CHR ''-'' # decimal (nat \<bar>i\<bar>))"

subsection \<open>The progress controller\<close>

text \<open>\<^verbatim>\<open>UserProgress.create({ user, unlockedTreasures: [], totalPoints: 0, badges: [], level: 1 })\<close>.\<close>

definition create :: "nat \<Rightarrow> object_id \<Rightarrow> user_progress" where
  "create now userId =
     \<lparr>user = userId, unlockedTreasures = [], totalPoints = 0, badges = [], level = 1,
      missionBriefing = None, updatedAt = now\<rparr>"

text \<open>
  \<^verbatim>\<open>getProgress\<close>: the user's document, created when there is none. \<open>now\<close> is the
  clock reading of the request.
\<close>

definition getProgress :: "nat \<Rightarrow> database \<Rightarrow> object_id \<Rightarrow> database \<times> (error + reply)" where
  "getProgress now db userId =
     (case progress db userId of
        Some p \<Rightarrow>
          (db, Inr \<lparr>data = p, populated = populate (treasures db) (unlockedTreasures p),
                    message = None\<rparr>)
      | None \<Rightarrow>
          (let p = create now userId
           in (db\<lparr>progress := (progress db)(userId \<mapsto> p)\<rparr>,
               Inr \<lparr>data = p, populated = [], message = None\<rparr>)))"

text \<open>
  \<^verbatim>\<open>unlockTreasure\<close>, in the order of the handler: look the treasure up (404 when
  absent); load the user's document, creating and storing it when there is none; refuse
  with 400 when the treasure's identifier is in \<open>unlockedTreasures\<close>; otherwise push the
  identifier, add the points, run \<^verbatim>\<open>calculateLevel\<close> and \<^verbatim>\<open>checkBadges\<close>, save (the
  \<^verbatim>\<open>pre('save')\<close> hook stamps \<open>updatedAt\<close>), populate and answer.
\<close>

definition unlockTreasure ::
    "nat \<Rightarrow> database \<Rightarrow> object_id \<Rightarrow> object_id \<Rightarrow> database \<times> (error + reply)" where
  "unlockTreasure now db userId treasureId =
     (case findById (treasures db) treasureId of
        None \<Rightarrow> (db, Inl (HttpError 404 ''Treasure not found''))
      | Some t \<Rightarrow>
          (let (db1, p) =
                 (case progress db userId of
                    Some p \<Rightarrow> (db, p)
                  | None \<Rightarrow>
                      (let p = create now userId
                       in (db\<lparr>progress := (progress db)(userId \<mapsto> p)\<rparr>, p)))
           in if treasure_id t \<in> set (unlockedTreasures p)
              then (db1, Inl (HttpError 400 ''Treasure already unlocked''))
              else
                (let p1 = p\<lparr>unlockedTreasures := unlockedTreasures p @ [treasure_id t]\<rparr>;
                     p2 = p1\<lparr>totalPoints := totalPoints p1 + points t\<rparr>;
                     p3 = calculateLevel p2;
                     p4 = checkBadges (treasures db1) p3;
                     p5 = p4\<lparr>updatedAt := now\<rparr>;
                     db2 = db1\<lparr>progress := (progress db1)(userId \<mapsto> p5)\<rparr>
                 in (db2,
                     Inr \<lparr>data = p5,
                          populated = populate (treasures db2) (unlockedTreasures p5),
                          message = Some (''Unlocked '' @ [CHR 0x22] @ name t @ [CHR 0x22]
                                          @ '' for '' @ number_text (points t)
                                          @ '' points!'')\<rparr>))))"

text \<open>The three refusals of the spec's taxonomy, as the handlers send them.\<close>

definition TreasureNotFound :: error where
  "TreasureNotFound = HttpError 404 ''Treasure not found''"

definition AlreadyUnlocked :: error where
  "AlreadyUnlocked = HttpError 400 ''Treasure already unlocked''"

definition ProgressNotFound :: error where
  "ProgressNotFound = HttpError 404 ''User progress not found''"

subsection \<open>The unlock handler between its awaits\<close>








subsection \<open>The admin controller: \<^verbatim>\<open>resetUserProgress\<close>\<close>

text \<open>
  \<^verbatim>\<open>findOneAndUpdate({ user: id }, {...}, { new: true })\<close> without \<^verbatim>\<open>upsert\<close>: it
  updates the document when there is one and yields \<^verbatim>\<open>null\<close> otherwise; the handler
  answers 404 on \<^verbatim>\<open>null\<close>. The update does not run the save hook.
\<close>

definition resetUserProgress :: "database \<Rightarrow> object_id \<Rightarrow> database \<times> (error + reply)" where
  "resetUserProgress db userId =
     (case progress db userId of
        None \<Rightarrow> (db, Inl (HttpError 404 ''User progress not found''))
      | Some p \<Rightarrow>
          (let p' = p\<lparr>unlockedTreasures := [], totalPoints := 0, badges := [], level := 1,
                      missionBriefing := None\<rparr>
           in (db\<lparr>progress := (progress db)(userId \<mapsto> p')\<rparr>,
               Inr \<lparr>data = p', populated = [],
                    message = Some ''User progress has been reset''\<rparr>)))"

subsection \<open>The invariants of the spec\<close>

text \<open>
  The point value the catalog gives an identifier (nothing for an identifier it does not
  hold), the sum over a list of unlocked identifiers, and the two invariants of a
  progress document.
\<close>

definition pointsOf :: "treasure list \<Rightarrow> object_id \<Rightarrow> int" where
  "pointsOf ts i = (case findById ts i of None \<Rightarrow> 0 | Some t \<Rightarrow> points t)"

definition pointsSum :: "treasure list \<Rightarrow> object_id list \<Rightarrow> int" where
  "pointsSum ts ids = sum_list (map (pointsOf ts) ids)"

definition points_invariant :: "treasure list \<Rightarrow> user_progress \<Rightarrow> bool" where
  "points_invariant ts p \<longleftrightarrow> totalPoints p = pointsSum ts (unlockedTreasures p)"

definition level_invariant :: "user_progress \<Rightarrow> bool" where
  "level_invariant p \<longleftrightarrow> level p = \<lfloor>real_of_int (totalPoints p) / 200\<rfloor> + 1"

text \<open>The document a request works on: the stored one, or the one it would create.\<close>

definition loaded :: "nat \<Rightarrow> database \<Rightarrow> object_id \<Rightarrow> user_progress" where
  "loaded now db userId = (case progress db userId of Some p \<Rightarrow> p | None \<Rightarrow> create now userId)"

section \<open>The client\<close>

subsection \<open>Numbers\<close>

text \<open>
  The value of a distance: a number, \<^verbatim>\<open>Infinity\<close> or \<^verbatim>\<open>NaN\<close>. \<open>js_less\<close> is
  \<^verbatim>\<open><\<close> on such values: a comparison with \<^verbatim>\<open>NaN\<close> is false.
\<close>

datatype distance = Finite real | Infinity | NaN

fun js_less :: "distance \<Rightarrow> distance \<Rightarrow> bool" where
  "js_less (Finite a) (Finite b) = (a < b)"
| "js_less (Finite a) Infinity = True"
| "js_less (Finite a) NaN = False"
| "js_less Infinity d = False"
| "js_less NaN d = False"

text \<open>
  The arithmetic of the engine that runs the client. \<open>rd\<close> rounds the exact result of
  \<^verbatim>\<open>+\<close>, \<^verbatim>\<open>-\<close>, \<^verbatim>\<open>*\<close>, \<^verbatim>\<open>/\<close> and of the square root to a number of the engine;
  \<^verbatim>\<open>Math.sin\<close>, \<^verbatim>\<open>Math.cos\<close> and \<^verbatim>\<open>Math.atan2\<close> are approximations the language leaves
  to the engine, and \<^verbatim>\<open>Math.PI\<close> is its constant.
\<close>

record arithmetic =
  rd :: "real \<Rightarrow> real"
  Math_PI :: real
  Math_sin :: "real \<Rightarrow> real"
  Math_cos :: "real \<Rightarrow> real"
  Math_atan2 :: "real \<Rightarrow> real \<Rightarrow> real"

text \<open>\<^verbatim>\<open>Math.sqrt\<close>: \<^verbatim>\<open>NaN\<close> below zero, the rounded root otherwise.\<close>

definition Math_sqrt :: "arithmetic \<Rightarrow> real \<Rightarrow> distance" where
  "Math_sqrt ar x = (if x < 0 then NaN else Finite (rd ar (sqrt x)))"

text \<open>
  IEEE 754 double precision: \<open>double x\<close> is the number with a significand of 53 bits
  nearest to \<open>x\<close>, a tie going to the even significand. The exponent is not bounded
  here (no overflow to \<^verbatim>\<open>Infinity\<close>, no subnormal numbers); coordinates in degrees
  and distances on the Earth keep far from both limits.
\<close>

definition round_even :: "real \<Rightarrow> int" where
  "round_even y =
     (let f = \<lfloor>y\<rfloor>
      in if y - of_int f < 1 / 2 then f
         else if 1 / 2 < y - of_int f then f + 1
         else if even f then f else f + 1)"

definition double :: "real \<Rightarrow> real" where
  "double x =
     (if x = 0 then 0
      else (let e = \<lfloor>log 2 \<bar>x\<bar>\<rfloor> - 52
            in of_int (round_even (x / 2 powr of_int e)) * 2 powr of_int e))"

text \<open>\<^verbatim>\<open>Math.PI\<close> in double precision, \<^verbatim>\<open>0x1.921fb54442d18p+1\<close>.\<close>

definition PI_double :: real where
  "PI_double = 884279719003555 / 2 ^ 48"

text \<open>
  The arithmetic of an engine with IEEE doubles, given its three library functions, and
  the exact arithmetic of the reals.
\<close>

definition ieee ::
    "(real \<Rightarrow> real) \<Rightarrow> (real \<Rightarrow> real) \<Rightarrow> (real \<Rightarrow> real \<Rightarrow> real) \<Rightarrow> arithmetic" where
  "ieee sn cs atn =
     \<lparr>rd = double, Math_PI = PI_double, Math_sin = sn, Math_cos = cs, Math_atan2 = atn\<rparr>"

text \<open>
  The angle of the point \<open>(x, y)\<close>, in \<open>(-pi, pi]\<close>, and 0 at the origin: what
  \<^verbatim>\<open>Math.atan2(y, x)\<close> approximates.
\<close>

definition atan2 :: "real \<Rightarrow> real \<Rightarrow> real" where
  "atan2 y x =
     (if 0 < x then arctan (y / x)
      else if x < 0 then (if 0 \<le> y then arctan (y / x) + pi else arctan (y / x) - pi)
      else if 0 < y then pi / 2
      else if y < 0 then - (pi / 2)
      else 0)"

definition exact :: arithmetic where
  "exact = \<lparr>rd = (\<lambda>x. x), Math_PI = pi, Math_sin = sin, Math_cos = cos, Math_atan2 = atan2\<rparr>"

subsection \<open>Distance and the proximity gate\<close>

text \<open>
  \<^verbatim>\<open>calculateDistance\<close> of the main screen: the haversine formula, in metres, every
  operation in the arithmetic of the engine and in the order the expression is
  evaluated. There is no clamp on \<open>a\<close>: when \<open>a\<close> or \<open>1 - a\<close> is below zero the square
  root is \<^verbatim>\<open>NaN\<close>, and so are the angle and the product.
\<close>

definition calculateDistance ::
    "arithmetic \<Rightarrow> real \<Rightarrow> real \<Rightarrow> real \<Rightarrow> real \<Rightarrow> distance" where
  "calculateDistance ar lat1 lon1 lat2 lon2 =
     (let R = 6371000;
          \<phi>1 = rd ar (rd ar (lat1 * Math_PI ar) / 180);
          \<phi>2 = rd ar (rd ar (lat2 * Math_PI ar) / 180);
          \<Delta>\<phi> = rd ar (rd ar (rd ar (lat2 - lat1) * Math_PI ar) / 180);
          \<Delta>lambda = rd ar (rd ar (rd ar (lon2 - lon1) * Math_PI ar) / 180);
          a = rd ar
                (rd ar (Math_sin ar (rd ar (\<Delta>\<phi> / 2)) * Math_sin ar (rd ar (\<Delta>\<phi> / 2)))
                 + rd ar (rd ar (rd ar (Math_cos ar \<phi>1 * Math_cos ar \<phi>2)
                                 * Math_sin ar (rd ar (\<Delta>lambda / 2)))
                          * Math_sin ar (rd ar (\<Delta>lambda / 2))))
      in case (Math_sqrt ar a, Math_sqrt ar (rd ar (1 - a))) of
           (Finite y, Finite x) \<Rightarrow> Finite (rd ar (rd ar (R * 2) * Math_atan2 ar y x))
         | _ \<Rightarrow> NaN)"

text \<open>
  \<^verbatim>\<open>calculateDistance\<close> of the map component: the same formula with the angle
  named \<open>c\<close> first, so that the 2 is multiplied in before the radius.
\<close>

definition calculateDistance_map ::
    "arithmetic \<Rightarrow> real \<Rightarrow> real \<Rightarrow> real \<Rightarrow> real \<Rightarrow> distance" where
  "calculateDistance_map ar lat1 lon1 lat2 lon2 =
     (let R = 6371000;
          \<phi>1 = rd ar (rd ar (lat1 * Math_PI ar) / 180);
          \<phi>2 = rd ar (rd ar (lat2 * Math_PI ar) / 180);
          \<Delta>\<phi> = rd ar (rd ar (rd ar (lat2 - lat1) * Math_PI ar) / 180);
          \<Delta>lambda = rd ar (rd ar (rd ar (lon2 - lon1) * Math_PI ar) / 180);
          a = rd ar
                (rd ar (Math_sin ar (rd ar (\<Delta>\<phi> / 2)) * Math_sin ar (rd ar (\<Delta>\<phi> / 2)))
                 + rd ar (rd ar (rd ar (Math_cos ar \<phi>1 * Math_cos ar \<phi>2)
                                 * Math_sin ar (rd ar (\<Delta>lambda / 2)))
                          * Math_sin ar (rd ar (\<Delta>lambda / 2))))
      in case (Math_sqrt ar a, Math_sqrt ar (rd ar (1 - a))) of
           (Finite y, Finite x) \<Rightarrow> Finite (rd ar (R * rd ar (2 * Math_atan2 ar y x)))
         | _ \<Rightarrow> NaN)"

text \<open>
  The formula on the reals: the argument of the two square roots, and the distance.
\<close>

definition haversine_a :: "real \<Rightarrow> real \<Rightarrow> real \<Rightarrow> real \<Rightarrow> real" where
  "haversine_a lat1 lon1 lat2 lon2 =
     sin ((lat2 - lat1) * pi / 180 / 2) * sin ((lat2 - lat1) * pi / 180 / 2)
     + cos (lat1 * pi / 180) * cos (lat2 * pi / 180)
       * sin ((lon2 - lon1) * pi / 180 / 2) * sin ((lon2 - lon1) * pi / 180 / 2)"

definition haversine :: "real \<Rightarrow> real \<Rightarrow> real \<Rightarrow> real \<Rightarrow> real" where
  "haversine lat1 lon1 lat2 lon2 =
     6371000 * 2 * atan2 (sqrt (haversine_a lat1 lon1 lat2 lon2))
                         (sqrt (1 - haversine_a lat1 lon1 lat2 lon2))"

text \<open>
  What the claims ask of a distance: \<open>js_nonneg d\<close> is \<^verbatim>\<open>d >= 0\<close> and \<open>js_equal\<close> is
  \<^verbatim>\<open>==\<close>; both are false on \<^verbatim>\<open>NaN\<close>.
\<close>

fun js_nonneg :: "distance \<Rightarrow> bool" where
  "js_nonneg (Finite a) = (0 \<le> a)"
| "js_nonneg Infinity = True"
| "js_nonneg NaN = False"

fun js_equal :: "distance \<Rightarrow> distance \<Rightarrow> bool" where
  "js_equal (Finite a) (Finite b) = (a = b)"
| "js_equal Infinity Infinity = True"
| "js_equal Infinity (Finite b) = False"
| "js_equal (Finite a) Infinity = False"
| "js_equal NaN d = False"
| "js_equal d NaN = False"

text \<open>The two fields of \<^verbatim>\<open>GeolocationCoordinates\<close> the game reads.\<close>

record coordinates =
  position_latitude :: real
  position_longitude :: real

text \<open>
  \<^verbatim>\<open>getDistanceTo\<close> and \<^verbatim>\<open>isNear\<close>; \<open>userLocation\<close> is the state they close over,
  \<open>None\<close> while there is no fix.
\<close>

definition getDistanceTo :: "arithmetic \<Rightarrow> coordinates option \<Rightarrow> treasure \<Rightarrow> distance" where
  "getDistanceTo ar userLocation t =
     (case userLocation of
        None \<Rightarrow> Infinity
      | Some loc \<Rightarrow>
          calculateDistance ar (position_latitude loc) (position_longitude loc)
            (latitude t) (longitude t))"

definition isNear :: "arithmetic \<Rightarrow> coordinates option \<Rightarrow> treasure \<Rightarrow> bool" where
  "isNear ar userLocation t = js_less (getDistanceTo ar userLocation t) (Finite 50)"

subsection \<open>The scanner\<close>

text \<open>
  \<^verbatim>\<open>String.prototype.replace(pattern, replacement)\<close> with a string pattern: the first
  occurrence of the pattern is replaced.
\<close>

fun replace_first :: "string \<Rightarrow> string \<Rightarrow> string \<Rightarrow> string" where
  "replace_first pat rep [] = (if pat = [] then rep else [])"
| "replace_first pat rep (c # cs) =
     (if prefix pat (c # cs) then rep @ drop (length pat) (c # cs)
      else c # replace_first pat rep cs)"

text \<open>
  What \<^verbatim>\<open>scanQRCode\<close> does with the result of the decoder on one frame. The decoder
  yields \<^verbatim>\<open>null\<close> (\<open>None\<close>) or an object whose \<open>data\<close> is the payload. The four ways
  out: \<open>NoCode\<close> keeps the message \<^verbatim>\<open>'Scanning for QR code...'\<close>; \<open>Match\<close> sets
  \<open>success\<close> and hands the identifier to \<open>onScan\<close>; \<open>Mismatch\<close> sets \<open>wrongCode\<close>
  (\<^verbatim>\<open>'Wrong QR code! Find the right marker.'\<close>); \<open>Malformed\<close> shows
  \<^verbatim>\<open>'Not a GeoHunt QR code'\<close>.
\<close>

datatype scan_result = NoCode | Match string | Mismatch | Malformed

definition scanQRCode :: "string \<Rightarrow> string option \<Rightarrow> scan_result" where
  "scanQRCode targetId code =
     (case code of
        None \<Rightarrow> NoCode
      | Some payload \<Rightarrow>
          if payload = [] then NoCode
          else if prefix ''geohunt:'' payload then
            (let treasureId = replace_first ''geohunt:'' [] payload
             in if treasureId = targetId then Match treasureId else Mismatch)
          else Malformed)"

subsection \<open>The experience bar\<close>

text \<open>
  \<^verbatim>\<open>((userProgress?.totalPoints || 0) % 250) / 2.5\<close>. The argument is the value of
  \<^verbatim>\<open>userProgress?.totalPoints\<close>, \<open>None\<close> when it is undefined; \<^verbatim>\<open>|| 0\<close> turns an
  undefined total into 0 and leaves an integer as it is. \<^verbatim>\<open>%\<close> is the remainder of
  the truncating division (\<open>smod\<close>), which has the sign of the dividend.
\<close>

definition xpProgress :: "int option \<Rightarrow> real" where
  "xpProgress pts =
     real_of_int ((case pts of None \<Rightarrow> 0 | Some p \<Rightarrow> p) smod 250) / 2.5"

text \<open>The label beside the bar: \<^verbatim>\<open>{userProgress.totalPoints % 250}/250 XP\<close>.\<close>

definition xpLabel :: "int \<Rightarrow> string" where
  "xpLabel p = number_text (p smod 250) @ ''/250 XP''"

section \<open>Fixtures\<close>

text \<open>
  The treasure collection after the seeder has run (its five documents, with identifiers
  \<open>t1\<close> to \<open>t5\<close>), a database holding it and no progress yet, and two users.
\<close>

definition seeded :: "treasure list" where
  "seeded =
    [\<lparr>treasure_id = ''t1'', name = ''The Grand Library'',
      description = ''Home to over 2 million books and a quiet study atmosphere.'',
      clue = ''I am where silence speaks volumes and knowledge is stored on wooden ''
             @ ''shelves. Find the oldest clock in the main hall.'',
      latitude = 51.5074, longitude = - 0.1278, points = 100, category = academic\<rparr>,
     \<lparr>treasure_id = ''t2'', name = ''Innovation Hub'',
      description = ''The center for tech-startups and student projects.'',
      clue = ''Where the future is coded and 3D printers hum all day. Look for the ''
             @ ''neon blue wall near the entrance.'',
      latitude = 51.5085, longitude = - 0.1285, points = 150, category = academic\<rparr>,
     \<lparr>treasure_id = ''t3'', name = ''Student Union Plaza'',
      description = ''The heartbeat of social life and student activism.'',
      clue = ''Hungry for debate or just a coffee? Meet where the banners fly ''
             @ ''highest near the large fountain.'',
      latitude = 51.5065, longitude = - 0.1265, points = 80, category = social\<rparr>,
     \<lparr>treasure_id = ''t4'', name = ''Heritage Arch'',
      description = ''The oldest architectural structure on campus.'',
      clue = ''A stone gateway that has seen generations pass. Beneath the ivy on ''
             @ ''the left pillar lies a hidden plaque.'',
      latitude = 51.5070, longitude = - 0.1290, points = 200, category = history\<rparr>,
     \<lparr>treasure_id = ''t5'', name = ''Olympic Athletics Park'',
      description = ''State-of-the-art training facilities for university athletes.'',
      clue = ''The starting line for champions. Find the sculpture of the sprinter ''
             @ ''near the track entrance.'',
      latitude = 51.5095, longitude = - 0.1250, points = 120, category = sports\<rparr>]"

definition db0 :: database where
  "db0 = \<lparr>treasures = seeded, progress = Map.empty\<rparr>"

text \<open>A player who has found the library and the student union.\<close>

definition alice :: user_progress where
  "alice = \<lparr>user = ''u1'', unlockedTreasures = [''t1'', ''t3''], totalPoints = 180,
            badges = [''explorer'', ''socialite''], level = 1,
            missionBriefing = Some ''Welcome, agent.'', updatedAt = 1000\<rparr>"

definition db1 :: database where
  "db1 = \<lparr>treasures = seeded, progress = Map.empty(''u1'' \<mapsto> alice)\<rparr>"

text \<open>
  A position on the equator and, for a distance \<open>d\<close> in metres, the treasure that lies
  \<open>d\<close> metres due north of it.
\<close>

definition origin :: coordinates where
  "origin = \<lparr>position_latitude = 0, position_longitude = 0\<rparr>"

definition north_of_origin :: "real \<Rightarrow> treasure" where
  "north_of_origin d =
     \<lparr>treasure_id = ''t9'', name = ''Marker'', description = ''A marker.'', clue = ''Go north.'',
      latitude = d * 180 / (pi * 6371000), longitude = 0, points = 10, category = sports\<rparr>"

text \<open>
  An engine with IEEE doubles for the examples. Its sine and cosine return, at the four
  arguments the antipodal example reaches, the values a double-precision library
  returns there, and the double nearest to the exact value elsewhere.
\<close>

definition libm_sin :: "real \<Rightarrow> real" where
  "libm_sin x =
     (if x = - 6288211335136391 / 2 ^ 57 then - 6286216213909009 / 2 ^ 57
      else if x = 884279719003555 / 2 ^ 49 then 1
      else double (sin x))"

definition libm_cos :: "real \<Rightarrow> real" where
  "libm_cos x =
     (if x = 6288211335136391 / 2 ^ 57 \<or> x = - 6288211335136391 / 2 ^ 57
      then 8998626396882423 / 2 ^ 53
      else double (cos x))"

definition libm_atan2 :: "real \<Rightarrow> real \<Rightarrow> real" where
  "libm_atan2 y x = double (atan2 y x)"

section \<open>Auxiliary notions\<close>

text \<open>What a test reads off a player's stored document.\<close>

definition summary ::
    "database \<Rightarrow> object_id \<Rightarrow> (object_id list \<times> int \<times> int \<times> string list) option" where
  "summary db u =
     map_option (\<lambda>p. (unlockedTreasures p, totalPoints p, level p, badges p)) (progress db u)"

text \<open>
  One block of \<^verbatim>\<open>checkBadges\<close>: push \<open>b\<close> when the criterion \<open>c\<close> holds and \<open>b\<close> is
  not there yet; on the document and on its list of badges.
\<close>

definition pushBadge :: "bool \<Rightarrow> string \<Rightarrow> user_progress \<Rightarrow> user_progress" where
  "pushBadge c b p = (if c \<and> b \<notin> set (badges p) then p\<lparr>badges := badges p @ [b]\<rparr> else p)"

definition award :: "bool \<Rightarrow> string \<Rightarrow> string list \<Rightarrow> string list" where
  "award c b bs = (if c \<and> b \<notin> set bs then bs @ [b] else bs)"

section \<open>Properties\<close>

subsection \<open>The level\<close>

lemma level_calculateLevel:
  "level (calculateLevel p) = totalPoints p div 200 + 1"
proof -
  have "\<lfloor>real_of_int (totalPoints p) / real_of_int 200\<rfloor> = totalPoints p div 200"
    by (rule floor_divide_of_int_eq)
  then show ?thesis by (simp add: calculateLevel_def)
qed

text \<open>
  Claim C6. For a non-negative point total the level is \<open>floor (totalPoints / 200) + 1\<close>,
  which on integers is \<open>totalPoints div 200 + 1\<close>; it is at least 1, and a document with
  at least as many points has at least as high a level. The method is a total function of
  the document and changes no field but \<open>level\<close>.
\<close>

theorem calculateLevel_floor_mono:
  assumes "0 \<le> totalPoints p"
  shows "level (calculateLevel p) = \<lfloor>real_of_int (totalPoints p) / 200\<rfloor> + 1
       \<and> level (calculateLevel p) = totalPoints p div 200 + 1
       \<and> 1 \<le> level (calculateLevel p)
       \<and> (\<forall>q. totalPoints p \<le> totalPoints q \<longrightarrow>
              level (calculateLevel p) \<le> level (calculateLevel q))
       \<and> calculateLevel p = p\<lparr>level := level (calculateLevel p)\<rparr>"
proof -
  have a: "level (calculateLevel p) = \<lfloor>real_of_int (totalPoints p) / 200\<rfloor> + 1"
    by (simp add: calculateLevel_def)
  have b: "level (calculateLevel p) = totalPoints p div 200 + 1"
    by (rule level_calculateLevel)
  have "0 \<le> totalPoints p div 200"
    using assms by (simp add: pos_imp_zdiv_nonneg_iff)
  then have c: "1 \<le> level (calculateLevel p)"
    using b by simp
  have d: "\<forall>q. totalPoints p \<le> totalPoints q \<longrightarrow>
              level (calculateLevel p) \<le> level (calculateLevel q)"
    by (simp add: level_calculateLevel zdiv_mono1)
  have e: "calculateLevel p = p\<lparr>level := level (calculateLevel p)\<rparr>"
    by (simp add: calculateLevel_def)
  from a b c d e show ?thesis by blast
qed

text \<open>At 650 points, the total of the five seeded treasures, the level is 4.\<close>

theorem calculateLevel_floor_mono_witness:
  "0 \<le> totalPoints (alice\<lparr>totalPoints := 650\<rparr>)
   \<and> level (calculateLevel (alice\<lparr>totalPoints := 650\<rparr>)) = 4
   \<and> 1 \<le> level (calculateLevel (alice\<lparr>totalPoints := 650\<rparr>))"
  using calculateLevel_floor_mono [of "alice\<lparr>totalPoints := 650\<rparr>"] by simp

subsection \<open>Lookups and the badge blocks\<close>

lemma findById_Some: "findById ts i = Some t \<Longrightarrow> treasure_id t = i \<and> t \<in> set ts"
  by (auto simp: findById_def find_Some_iff)

lemma set_award: "set (award c b bs) = set bs \<union> (if c then {b} else {})"
  by (auto simp: award_def)

lemma prefix_award: "prefix bs (award c b bs)"
  by (simp add: award_def)

lemma pushBadge_fields:
  "unlockedTreasures (pushBadge c b p) = unlockedTreasures p"
  "badges (pushBadge c b p) = award c b (badges p)"
  by (simp_all add: pushBadge_def award_def)

lemma pushBadge_only_badges: "pushBadge c b p = p\<lparr>badges := badges (pushBadge c b p)\<rparr>"
  by (simp add: pushBadge_def)

lemma checkBadges_steps:
  "checkBadges ts p0 =
    (let p1 = pushBadge (1 \<le> length (unlockedTreasures p0)) ''explorer'' p0;
         academicTreasures = findByCategory ts academic;
         academicIds = map treasure_id academicTreasures;
         unlockedIds = unlockedTreasures p1;
         hasAllAcademic = list_all (\<lambda>i. i \<in> set unlockedIds) academicIds;
         p2 = pushBadge (hasAllAcademic \<and> 0 < length academicTreasures) ''scholar'' p1;
         socialTreasures = findByCategory ts social;
         hasSocial = list_ex (\<lambda>t. treasure_id t \<in> set unlockedIds) socialTreasures;
         p3 = pushBadge hasSocial ''socialite'' p2;
         allTreasures = ts;
         p4 = pushBadge (length (unlockedTreasures p3) = length allTreasures
                          \<and> 0 < length allTreasures) ''master'' p3
     in p4)"
  unfolding checkBadges_def pushBadge_def by (simp only: conj_assoc)

lemma checkBadges_pushes:
  "checkBadges ts p =
     pushBadge (length (unlockedTreasures p) = length ts \<and> 0 < length ts) ''master''
      (pushBadge (list_ex (\<lambda>t. treasure_id t \<in> set (unlockedTreasures p))
                    (findByCategory ts social)) ''socialite''
        (pushBadge (list_all (\<lambda>i. i \<in> set (unlockedTreasures p))
                      (map treasure_id (findByCategory ts academic))
                    \<and> 0 < length (findByCategory ts academic)) ''scholar''
          (pushBadge (1 \<le> length (unlockedTreasures p)) ''explorer'' p)))"
  by (simp only: checkBadges_steps Let_def pushBadge_fields)

lemma badges_checkBadges:
  "badges (checkBadges ts p) =
     award (length (unlockedTreasures p) = length ts \<and> 0 < length ts) ''master''
      (award (list_ex (\<lambda>t. treasure_id t \<in> set (unlockedTreasures p))
                (findByCategory ts social)) ''socialite''
        (award (list_all (\<lambda>i. i \<in> set (unlockedTreasures p))
                  (map treasure_id (findByCategory ts academic))
                \<and> 0 < length (findByCategory ts academic)) ''scholar''
          (award (1 \<le> length (unlockedTreasures p)) ''explorer'' (badges p))))"
  by (simp only: checkBadges_pushes pushBadge_fields)

lemma checkBadges_only_badges: "checkBadges ts p = p\<lparr>badges := badges (checkBadges ts p)\<rparr>"
proof -
  have "\<And>c b q x. q = p\<lparr>badges := x\<rparr> \<Longrightarrow> \<exists>y. pushBadge c b q = p\<lparr>badges := y\<rparr>"
    by (auto simp: pushBadge_def)
  moreover have "p = p\<lparr>badges := badges p\<rparr>" by simp
  ultimately have "\<exists>y. checkBadges ts p = p\<lparr>badges := y\<rparr>"
    unfolding checkBadges_pushes by metis
  then obtain y where y: "checkBadges ts p = p\<lparr>badges := y\<rparr>" ..
  then have "badges (checkBadges ts p) = y" by simp
  with y show ?thesis by simp
qed

lemma checkBadges_keeps:
  "unlockedTreasures (checkBadges ts p) = unlockedTreasures p"
  "totalPoints (checkBadges ts p) = totalPoints p"
  "level (checkBadges ts p) = level p"
  "user (checkBadges ts p) = user p"
  "missionBriefing (checkBadges ts p) = missionBriefing p"
  "updatedAt (checkBadges ts p) = updatedAt p"
  by (subst checkBadges_only_badges, simp)+

lemma all_academic_iff:
  "list_all (\<lambda>i. i \<in> set us) (map treasure_id (findByCategory ts academic))
     \<longleftrightarrow> (\<forall>t\<in>set ts. category t = academic \<longrightarrow> treasure_id t \<in> set us)"
  by (auto simp: findByCategory_def list_all_iff)

lemma some_academic_iff:
  "findByCategory ts academic \<noteq> [] \<longleftrightarrow> (\<exists>t\<in>set ts. category t = academic)"
  by (auto simp: findByCategory_def filter_empty_conv)

lemma some_social_iff:
  "list_ex (\<lambda>t. treasure_id t \<in> set us) (findByCategory ts social)
     \<longleftrightarrow> (\<exists>t\<in>set ts. category t = social \<and> treasure_id t \<in> set us)"
  by (auto simp: findByCategory_def list_ex_iff)

subsection \<open>Unlocking\<close>

lemma pointsSum_snoc: "pointsSum ts (ids @ [i]) = pointsSum ts ids + pointsOf ts i"
  by (simp add: pointsSum_def)

text \<open>The answer to an unlock of a catalog treasure that is not unlocked yet.\<close>

lemma unlockTreasure_fresh:
  assumes "findById (treasures db) treasureId = Some t"
      and "treasureId \<notin> set (unlockedTreasures (loaded now db userId))"
  shows "unlockTreasure now db userId treasureId =
     (let p = loaded now db userId;
          p5 = (checkBadges (treasures db)
                 (calculateLevel (p\<lparr>unlockedTreasures := unlockedTreasures p @ [treasureId],
                                     totalPoints := totalPoints p + points t\<rparr>)))\<lparr>updatedAt := now\<rparr>
      in (db\<lparr>progress := (progress db)(userId \<mapsto> p5)\<rparr>,
          Inr \<lparr>data = p5, populated = populate (treasures db) (unlockedTreasures p5),
               message = Some (''Unlocked '' @ [CHR 0x22] @ name t @ [CHR 0x22]
                               @ '' for '' @ number_text (points t) @ '' points!'')\<rparr>))"
  using assms findById_Some [OF assms(1)]
  by (auto simp: unlockTreasure_def loaded_def Let_def split: option.splits)

lemma unlock_fresh_fields:
  assumes "findById (treasures db) treasureId = Some t"
      and "treasureId \<notin> set (unlockedTreasures (loaded now db userId))"
  shows "\<exists>db' r. unlockTreasure now db userId treasureId = (db', Inr r)
           \<and> progress db' userId = Some (data r)
           \<and> treasures db' = treasures db
           \<and> unlockedTreasures (data r) = unlockedTreasures (loaded now db userId) @ [treasureId]
           \<and> totalPoints (data r) = totalPoints (loaded now db userId) + points t
           \<and> level (data r) = \<lfloor>real_of_int (totalPoints (data r)) / 200\<rfloor> + 1"
  by (simp add: unlockTreasure_fresh [OF assms(1,2)] Let_def checkBadges_keeps
        calculateLevel_def)

lemma unlockTreasure_present:
  assumes "findById (treasures db) treasureId = Some t"
      and "progress db userId = Some p"
      and "treasureId \<in> set (unlockedTreasures p)"
  shows "unlockTreasure now db userId treasureId = (db, Inl AlreadyUnlocked)"
  using assms findById_Some [OF assms(1)]
  by (simp add: unlockTreasure_def AlreadyUnlocked_def)

lemma unlockTreasure_unknown:
  assumes "findById (treasures db) treasureId = None"
  shows "unlockTreasure now db userId treasureId = (db, Inl TreasureNotFound)"
  using assms by (simp add: unlockTreasure_def TreasureNotFound_def)


text \<open>Facts about the fixtures.\<close>

lemma seeded_t1: "findById (treasures db1) ''t1'' = Some (seeded ! 0)"
  by (simp add: db1_def seeded_def findById_def)

lemma seeded_t2: "findById (treasures db1) ''t2'' = Some (seeded ! 1)"
  by (simp add: db1_def seeded_def findById_def)

lemma alice_stored: "progress db1 ''u1'' = Some alice"
  by (simp add: db1_def)

lemma alice_loaded: "loaded n db1 ''u1'' = alice"
  by (simp add: loaded_def db1_def)

lemma alice_invariant: "points_invariant (treasures db1) alice"
  by (simp add: points_invariant_def pointsSum_def pointsOf_def findById_def db1_def
        seeded_def alice_def)

text \<open>
  Claim C1. Let the treasure be in the catalog, not among the unlocked treasures of the
  player's document (the stored one, or the fresh one the handler creates), and let that
  document satisfy the points invariant. Then \<^verbatim>\<open>unlockTreasure\<close> succeeds and stores
  the document it answers with; that document has the identifier appended to
  \<open>unlockedTreasures\<close>, its \<open>totalPoints\<close> raised by exactly the treasure's points and
  equal again to the sum of the points of the unlocked treasures, and its \<open>level\<close> equal
  to \<open>floor (totalPoints / 200) + 1\<close>.
\<close>

theorem unlockTreasure_awards:
  assumes "findById (treasures db) treasureId = Some t"
      and "treasureId \<notin> set (unlockedTreasures (loaded now db userId))"
      and "points_invariant (treasures db) (loaded now db userId)"
  shows "\<exists>db' r. unlockTreasure now db userId treasureId = (db', Inr r)
           \<and> progress db' userId = Some (data r)
           \<and> treasures db' = treasures db
           \<and> unlockedTreasures (data r) = unlockedTreasures (loaded now db userId) @ [treasureId]
           \<and> totalPoints (data r) = totalPoints (loaded now db userId) + points t
           \<and> points_invariant (treasures db') (data r)
           \<and> level_invariant (data r)"
proof -
  from unlock_fresh_fields [OF assms(1,2)]
  obtain db' r where r: "unlockTreasure now db userId treasureId = (db', Inr r)"
      "progress db' userId = Some (data r)"
      "treasures db' = treasures db"
      "unlockedTreasures (data r) = unlockedTreasures (loaded now db userId) @ [treasureId]"
      "totalPoints (data r) = totalPoints (loaded now db userId) + points t"
      "level (data r) = \<lfloor>real_of_int (totalPoints (data r)) / 200\<rfloor> + 1"
    by blast
  have "pointsOf (treasures db) treasureId = points t"
    by (simp add: pointsOf_def assms(1))
  then have "points_invariant (treasures db') (data r)"
    using assms(3) r(3,4,5) by (simp add: points_invariant_def pointsSum_snoc)
  moreover have "level_invariant (data r)"
    using r(6) by (simp add: level_invariant_def)
  ultimately show ?thesis using r(1-5) by blast
qed

text \<open>
  Alice holds the library and the student union (180 points, level 1) and unlocks the
  innovation hub (150 points): 330 points, level 2.
\<close>

theorem unlockTreasure_awards_witness:
  "findById (treasures db1) ''t2'' = Some (seeded ! 1)
   \<and> ''t2'' \<notin> set (unlockedTreasures (loaded 2000 db1 ''u1''))
   \<and> points_invariant (treasures db1) (loaded 2000 db1 ''u1'')
   \<and> (\<exists>db' r. unlockTreasure 2000 db1 ''u1'' ''t2'' = (db', Inr r)
           \<and> progress db' ''u1'' = Some (data r)
           \<and> unlockedTreasures (data r) = [''t1'', ''t3'', ''t2'']
           \<and> totalPoints (data r) = 330
           \<and> points_invariant (treasures db') (data r)
           \<and> level (data r) = 2)"
proof -
  have h1: "findById (treasures db1) ''t2'' = Some (seeded ! 1)" by (rule seeded_t2)
  have h2: "''t2'' \<notin> set (unlockedTreasures (loaded 2000 db1 ''u1''))"
    by (simp add: alice_loaded) (simp add: alice_def)
  have h3: "points_invariant (treasures db1) (loaded 2000 db1 ''u1'')"
    by (simp add: alice_loaded alice_invariant)
  from unlockTreasure_awards [OF h1 h2 h3]
  obtain db' r where r: "unlockTreasure 2000 db1 ''u1'' ''t2'' = (db', Inr r)"
      "progress db' ''u1'' = Some (data r)"
      "unlockedTreasures (data r) = unlockedTreasures (loaded 2000 db1 ''u1'') @ [''t2'']"
      "totalPoints (data r) = totalPoints (loaded 2000 db1 ''u1'') + points (seeded ! 1)"
      "points_invariant (treasures db') (data r)"
      "level_invariant (data r)"
    by blast
  have "unlockedTreasures (data r) = [''t1'', ''t3'', ''t2'']"
    using r(3) by (simp add: alice_loaded) (simp add: alice_def)
  moreover have tp: "totalPoints (data r) = 330"
    using r(4) by (simp add: alice_loaded) (simp add: alice_def seeded_def)
  moreover have "level (data r) = 2"
    using r(6) by (simp add: level_invariant_def tp)
  ultimately show ?thesis using h1 h2 h3 r(1,2,5) by blast
qed

text \<open>
  Claim C2. When the treasure is in the catalog and its identifier is already in the
  player's \<open>unlockedTreasures\<close>, \<^verbatim>\<open>unlockTreasure\<close> answers 400
  \<^verbatim>\<open>'Treasure already unlocked'\<close> and returns the database it was given: the player's
  document, with its unlocked treasures, points, level and badges, is the one stored
  before.
\<close>

theorem unlockTreasure_already_unlocked:
  assumes "findById (treasures db) treasureId = Some t"
      and "progress db userId = Some p"
      and "treasureId \<in> set (unlockedTreasures p)"
  shows "unlockTreasure now db userId treasureId = (db, Inl AlreadyUnlocked)
       \<and> progress (fst (unlockTreasure now db userId treasureId)) userId = Some p"
  using assms by (simp add: unlockTreasure_present)

theorem unlockTreasure_already_unlocked_witness:
  "findById (treasures db1) ''t1'' = Some (seeded ! 0)
   \<and> progress db1 ''u1'' = Some alice
   \<and> ''t1'' \<in> set (unlockedTreasures alice)
   \<and> unlockTreasure 2000 db1 ''u1'' ''t1'' = (db1, Inl AlreadyUnlocked)
   \<and> progress (fst (unlockTreasure 2000 db1 ''u1'' ''t1'')) ''u1'' = Some alice"
proof -
  have h3: "''t1'' \<in> set (unlockedTreasures alice)" by (simp add: alice_def)
  from unlockTreasure_already_unlocked [OF seeded_t1 alice_stored h3, of 2000]
  show ?thesis using seeded_t1 alice_stored h3 by blast
qed


subsection \<open>Two requests for the same treasure\<close>









subsection \<open>Badges\<close>

text \<open>
  Claim C4, with the identifiers the code uses. \<^verbatim>\<open>checkBadges\<close> leaves in \<open>badges\<close>
  exactly the badges that were there together with: \<open>explorer\<close> when at least one
  treasure is unlocked; \<open>scholar\<close> when every academic treasure of the catalog is unlocked
  and the catalog has an academic treasure; \<open>socialite\<close> when a social treasure of the
  catalog is unlocked; \<open>master\<close> when the number of unlocked treasures is the size of a
  non-empty catalog. The old list is a prefix of the new one, so nothing is removed, and
  no other field of the document changes.
\<close>

theorem checkBadges_awards:
  "set (badges (checkBadges ts p)) =
      set (badges p)
      \<union> (if 1 \<le> length (unlockedTreasures p) then {''explorer''} else {})
      \<union> (if (\<forall>t\<in>set ts. category t = academic \<longrightarrow> treasure_id t \<in> set (unlockedTreasures p))
              \<and> (\<exists>t\<in>set ts. category t = academic) then {''scholar''} else {})
      \<union> (if \<exists>t\<in>set ts. category t = social \<and> treasure_id t \<in> set (unlockedTreasures p)
           then {''socialite''} else {})
      \<union> (if length (unlockedTreasures p) = length ts \<and> ts \<noteq> [] then {''master''} else {})
   \<and> prefix (badges p) (badges (checkBadges ts p))
   \<and> checkBadges ts p = p\<lparr>badges := badges (checkBadges ts p)\<rparr>"
proof -
  have s: "set (badges (checkBadges ts p)) =
      set (badges p)
      \<union> (if 1 \<le> length (unlockedTreasures p) then {''explorer''} else {})
      \<union> (if (\<forall>t\<in>set ts. category t = academic \<longrightarrow> treasure_id t \<in> set (unlockedTreasures p))
              \<and> (\<exists>t\<in>set ts. category t = academic) then {''scholar''} else {})
      \<union> (if \<exists>t\<in>set ts. category t = social \<and> treasure_id t \<in> set (unlockedTreasures p)
           then {''socialite''} else {})
      \<union> (if length (unlockedTreasures p) = length ts \<and> ts \<noteq> [] then {''master''} else {})"
    by (simp only: badges_checkBadges set_award all_academic_iff some_academic_iff
          some_social_iff length_greater_0_conv)
  have "prefix (badges p) (badges (checkBadges ts p))"
    unfolding badges_checkBadges
    by (blast intro: prefix_order.trans prefix_award)
  then show ?thesis using s checkBadges_only_badges by blast
qed


text \<open>
  After Alice has unlocked the innovation hub she holds both academic treasures: she
  keeps \<open>explorer\<close> and \<open>socialite\<close> and gains \<open>scholar\<close>, and not \<open>master\<close>.
\<close>

theorem checkBadges_awards_witness:
  "set (badges (checkBadges seeded (alice\<lparr>unlockedTreasures := [''t1'', ''t3'', ''t2'']\<rparr>)))
      = {''explorer'', ''socialite'', ''scholar''}
   \<and> prefix (badges alice)
        (badges (checkBadges seeded (alice\<lparr>unlockedTreasures := [''t1'', ''t3'', ''t2'']\<rparr>)))"
  using checkBadges_awards [of seeded "alice\<lparr>unlockedTreasures := [''t1'', ''t3'', ''t2'']\<rparr>"]
  by (simp add: seeded_def alice_def insert_commute)


text \<open>
  The identifiers of the spec are not those of the code. A new player unlocks the
  library: the answer carries the one badge \<open>explorer\<close>, and \<open>first-find\<close> is not
  among the badges although a treasure is unlocked.
\<close>

lemma bob_unlock:
  "findById (treasures db0) ''t1'' = Some (seeded ! 0)"
  "loaded 2000 db0 ''u2'' = create 2000 ''u2''"
  by (simp_all add: db0_def seeded_def findById_def loaded_def)

theorem checkBadges_identifiers_counterexample:
  "map_sum id (badges \<circ> data) (snd (unlockTreasure 2000 db0 ''u2'' ''t1'')) = Inr [''explorer'']
   \<and> 1 \<le> length (unlockedTreasures ((create 2000 ''u2'')\<lparr>unlockedTreasures := [''t1'']\<rparr>))
   \<and> ''first-find'' \<notin> set (badges (checkBadges seeded
         ((create 2000 ''u2'')\<lparr>unlockedTreasures := [''t1'']\<rparr>)))"
proof -
  have n: "''t1'' \<notin> set (unlockedTreasures (loaded 2000 db0 ''u2''))"
    by (simp add: bob_unlock create_def)
  have t: "treasures db0 = seeded" by (simp add: db0_def)
  have b: "\<And>q. unlockedTreasures q = [''t1''] \<Longrightarrow> badges q = []
             \<Longrightarrow> badges (checkBadges seeded q) = [''explorer'']"
    by (simp add: badges_checkBadges findByCategory_def seeded_def award_def)
  have "map_sum id (badges \<circ> data) (snd (unlockTreasure 2000 db0 ''u2'' ''t1''))
          = Inr [''explorer'']"
    by (simp add: unlockTreasure_fresh [OF bob_unlock(1) n] Let_def bob_unlock(2) t b
          calculateLevel_def create_def)
  moreover have "badges (checkBadges seeded ((create 2000 ''u2'')\<lparr>unlockedTreasures := [''t1'']\<rparr>))
          = [''explorer'']"
    by (rule b) (simp_all add: create_def)
  ultimately show ?thesis by simp
qed


text \<open>
  The scenario of the spec on the seeded catalog: after the two academic treasures a new
  player holds \<open>explorer\<close> and \<open>scholar\<close>; after all five, 650 points, level 4 and
  \<open>master\<close>.
\<close>

lemma scenario_academic:
  "summary (fst (unlockTreasure 2 (fst (unlockTreasure 1 db0 ''u1'' ''t1'')) ''u1'' ''t2'')) ''u1''
   = Some ([''t1'', ''t2''], 250, 2, [''explorer'', ''scholar''])"
  by code_simp

lemma scenario_all:
  "summary (fst (unlockTreasure 5 (fst (unlockTreasure 4 (fst (unlockTreasure 3
          (fst (unlockTreasure 2 (fst (unlockTreasure 1 db0 ''u1'' ''t1'')) ''u1'' ''t2''))
          ''u1'' ''t3'')) ''u1'' ''t4'')) ''u1'' ''t5'')) ''u1''
   = Some ([''t1'', ''t2'', ''t3'', ''t4'', ''t5''], 650, 4,
           [''explorer'', ''scholar'', ''socialite'', ''master''])"
  by code_simp

subsection \<open>Reset\<close>

text \<open>
  Claim C9. For a user with no progress document, be the collection empty or not,
  \<^verbatim>\<open>resetUserProgress\<close> answers 404 \<^verbatim>\<open>'User progress not found'\<close> and returns the
  database unchanged, where \<^verbatim>\<open>getProgress\<close> creates and stores the initial document.
  For a user with a document it stores and answers with that document with
  \<open>unlockedTreasures\<close> and \<open>badges\<close> empty, \<open>totalPoints\<close> 0, \<open>level\<close> 1 and no
  mission briefing; nothing else in the database changes.
\<close>

theorem resetUserProgress_not_found_or_cleared:
  "(progress db u = None \<longrightarrow>
        resetUserProgress db u = (db, Inl ProgressNotFound)
      \<and> (\<exists>db' r. getProgress now db u = (db', Inr r)
            \<and> data r = create now u \<and> progress db' u = Some (create now u)))
   \<and> (progress db u = Some p \<longrightarrow>
        (\<exists>db' r. resetUserProgress db u = (db', Inr r)
            \<and> progress db' = (progress db)(u \<mapsto> data r)
            \<and> treasures db' = treasures db
            \<and> unlockedTreasures (data r) = [] \<and> totalPoints (data r) = 0
            \<and> badges (data r) = [] \<and> level (data r) = 1
            \<and> missionBriefing (data r) = None
            \<and> user (data r) = user p \<and> updatedAt (data r) = updatedAt p))"
  by (simp add: resetUserProgress_def getProgress_def ProgressNotFound_def Let_def)

text \<open>
  On the empty collection of \<open>db0\<close> the reset of \<open>u1\<close> is refused and nothing is
  stored; in \<open>db1\<close>, where \<open>u1\<close> is Alice, her document is cleared.
\<close>

theorem resetUserProgress_not_found_or_cleared_witness:
  "progress db0 ''u1'' = None
   \<and> resetUserProgress db0 ''u1'' = (db0, Inl ProgressNotFound)
   \<and> progress db1 ''u1'' = Some alice
   \<and> (\<exists>db' r. resetUserProgress db1 ''u1'' = (db', Inr r)
         \<and> progress db' ''u1'' = Some (data r)
         \<and> unlockedTreasures (data r) = [] \<and> totalPoints (data r) = 0
         \<and> badges (data r) = [] \<and> level (data r) = 1
         \<and> missionBriefing (data r) = None)"
proof -
  have h0: "progress db0 ''u1'' = None" by (simp add: db0_def)
  from resetUserProgress_not_found_or_cleared [of db0 "''u1''" 2000 alice]
       resetUserProgress_not_found_or_cleared [of db1 "''u1''" 2000 alice]
  show ?thesis using h0 alice_stored by auto
qed

section \<open>Properties of the client\<close>

subsection \<open>Distance in exact arithmetic\<close>

text \<open>
  On the reals both square roots of the formula are taken of numbers between 0 and 1,
  whatever the coordinates; there \<^verbatim>\<open>calculateDistance\<close> is the haversine distance,
  which is 0 from a point to itself, symmetric and never negative.
\<close>

lemma sin_sq_half: "sin (x / 2) * sin (x / 2) = (1 - cos x) / (2::real)"
  using cos_double_sin [of "x / 2"] by (simp add: power2_eq_square)

lemma cos_product: "cos x * cos y = (cos (y - x) + cos (x + y)) / (2::real)"
  by (simp add: cos_add cos_diff)

lemma haversine_a_range:
  "0 \<le> haversine_a lat1 lon1 lat2 lon2 \<and> haversine_a lat1 lon1 lat2 lon2 \<le> 1"
proof -
  define x where "x = lat1 * pi / 180"
  define y where "y = lat2 * pi / 180"
  define k where "k = sin ((lon2 - lon1) * pi / 180 / 2) * sin ((lon2 - lon1) * pi / 180 / 2)"
  have d: "(lat2 - lat1) * pi / 180 = y - x"
    by (simp add: x_def y_def algebra_simps diff_divide_distrib)
  have k0: "0 \<le> k" by (simp add: k_def)
  have "k = (sin ((lon2 - lon1) * pi / 180 / 2))\<^sup>2" by (simp add: k_def power2_eq_square)
  then have k1: "k \<le> 1" by (simp add: abs_square_le_1)
  have a: "haversine_a lat1 lon1 lat2 lon2 = (1 - cos (y - x)) / 2 + (cos (y - x) + cos (x + y)) / 2 * k"
    unfolding haversine_a_def
    by (simp only: d sin_sq_half [symmetric] cos_product [symmetric] x_def [symmetric]
          y_def [symmetric] k_def mult.assoc)
  have c1: "(1 - k) * cos (y - x) \<le> (1 - k) * 1"
    using k1 by (intro mult_left_mono) simp_all
  have c2: "k * (- 1) \<le> k * cos (x + y)"
    using k0 by (intro mult_left_mono) simp_all
  have c3: "(1 - k) * (- 1) \<le> (1 - k) * cos (y - x)"
    using k1 by (intro mult_left_mono) simp_all
  have c4: "k * cos (x + y) \<le> k * 1"
    using k0 by (intro mult_left_mono) simp_all
  have e: "haversine_a lat1 lon1 lat2 lon2 = (1 - (1 - k) * cos (y - x) + k * cos (x + y)) / 2"
    unfolding a by (simp add: algebra_simps add_divide_distrib diff_divide_distrib)
  from c1 c2 c3 c4 show ?thesis unfolding e by simp
qed

lemma atan2_nonneg: "0 \<le> y \<Longrightarrow> 0 \<le> atan2 y x"
proof -
  assume y: "0 \<le> y"
  have "x < 0 \<Longrightarrow> 0 \<le> arctan (y / x) + pi"
    using arctan_lbound [of "y / x"] pi_gt_zero by linarith
  moreover have "0 < x \<Longrightarrow> 0 \<le> arctan (y / x)"
    using y by simp
  ultimately show ?thesis using y by (simp add: atan2_def)
qed

lemma haversine_a_sym: "haversine_a lat2 lon2 lat1 lon1 = haversine_a lat1 lon1 lat2 lon2"
proof -
  have 1: "(lat1 - lat2) * pi / 180 / 2 = - ((lat2 - lat1) * pi / 180 / 2)"
    by (simp add: field_simps)
  have 2: "(lon1 - lon2) * pi / 180 / 2 = - ((lon2 - lon1) * pi / 180 / 2)"
    by (simp add: field_simps)
  show ?thesis
    unfolding haversine_a_def 1 2 sin_minus by (simp add: mult.commute)
qed

lemma haversine_a_same: "haversine_a lat lon lat lon = 0"
  by (simp add: haversine_a_def)

lemma calculateDistance_exact:
  "calculateDistance exact lat1 lon1 lat2 lon2 = Finite (haversine lat1 lon1 lat2 lon2)"
proof -
  have sel: "rd exact = (\<lambda>x. x)" "Math_PI exact = pi" "Math_sin exact = sin"
    "Math_cos exact = cos" "Math_atan2 exact = atan2"
    by (simp_all add: exact_def)
  have a: "sin ((lat2 - lat1) * pi / 180 / 2) * sin ((lat2 - lat1) * pi / 180 / 2)
           + cos (lat1 * pi / 180) * cos (lat2 * pi / 180)
             * sin ((lon2 - lon1) * pi / 180 / 2) * sin ((lon2 - lon1) * pi / 180 / 2)
           = haversine_a lat1 lon1 lat2 lon2"
    by (simp only: haversine_a_def)
  have r: "\<not> haversine_a lat1 lon1 lat2 lon2 < 0" "\<not> 1 - haversine_a lat1 lon1 lat2 lon2 < 0"
    using haversine_a_range [of lat1 lon1 lat2 lon2] by simp_all
  show ?thesis
    unfolding calculateDistance_def Let_def
    by (simp only: sel a Math_sqrt_def r if_False distance.case prod.case haversine_def)
qed

lemma calculateDistance_map_exact:
  "calculateDistance_map exact lat1 lon1 lat2 lon2 = Finite (haversine lat1 lon1 lat2 lon2)"
proof -
  have sel: "rd exact = (\<lambda>x. x)" "Math_PI exact = pi" "Math_sin exact = sin"
    "Math_cos exact = cos" "Math_atan2 exact = atan2"
    by (simp_all add: exact_def)
  have a: "sin ((lat2 - lat1) * pi / 180 / 2) * sin ((lat2 - lat1) * pi / 180 / 2)
           + cos (lat1 * pi / 180) * cos (lat2 * pi / 180)
             * sin ((lon2 - lon1) * pi / 180 / 2) * sin ((lon2 - lon1) * pi / 180 / 2)
           = haversine_a lat1 lon1 lat2 lon2"
    by (simp only: haversine_a_def)
  have r: "\<not> haversine_a lat1 lon1 lat2 lon2 < 0" "\<not> 1 - haversine_a lat1 lon1 lat2 lon2 < 0"
    using haversine_a_range [of lat1 lon1 lat2 lon2] by simp_all
  have "calculateDistance_map exact lat1 lon1 lat2 lon2 =
          Finite (6371000 * (2 * atan2 (sqrt (haversine_a lat1 lon1 lat2 lon2))
                                       (sqrt (1 - haversine_a lat1 lon1 lat2 lon2))))"
    unfolding calculateDistance_map_def Let_def
    by (simp only: sel a Math_sqrt_def r if_False distance.case prod.case)
  then show ?thesis by (simp add: haversine_def)
qed

lemma haversine_metric:
  "haversine lat lon lat lon = 0
   \<and> haversine lat1 lon1 lat2 lon2 = haversine lat2 lon2 lat1 lon1
   \<and> 0 \<le> haversine lat1 lon1 lat2 lon2"
proof -
  have "haversine lat lon lat lon = 0"
    by (simp add: haversine_def haversine_a_same atan2_def)
  moreover have "haversine lat1 lon1 lat2 lon2 = haversine lat2 lon2 lat1 lon1"
    by (simp only: haversine_def haversine_a_sym)
  moreover have "0 \<le> haversine lat1 lon1 lat2 lon2"
    using haversine_a_range [of lat1 lon1 lat2 lon2]
    by (simp add: haversine_def atan2_nonneg)
  ultimately show ?thesis by simp
qed

text \<open>
  Along the meridian the formula gives the length of the arc: the treasure placed \<open>d\<close>
  metres north of the origin is at distance \<open>d\<close>.
\<close>

lemma haversine_north:
  assumes "0 \<le> d" and "d < pi * 6371000"
  shows "haversine 0 0 (d * 180 / (pi * 6371000)) 0 = d"
proof -
  define h where "h = d / 6371000 / 2"
  have h: "0 \<le> h" "h < pi / 2" using assms by (simp_all add: h_def)
  have hl: "d * 180 / (pi * 6371000) * pi / 180 / 2 = h"
    by (simp add: h_def)
  have "\<And>L. haversine_a 0 0 L 0 = sin (L * pi / 180 / 2) * sin (L * pi / 180 / 2)"
    by (simp add: haversine_a_def)
  then have a: "haversine_a 0 0 (d * 180 / (pi * 6371000)) 0 = sin h * sin h"
    by (simp only: hl)
  have s: "0 \<le> sin h" using h by (simp add: sin_ge_zero)
  have c: "0 < cos h" using h by (simp add: cos_gt_zero_pi)
  have "1 - sin h * sin h = cos h * cos h"
    using sin_cos_squared_add [of h] by (simp add: power2_eq_square algebra_simps)
  then have r: "sqrt (sin h * sin h) = sin h" "sqrt (1 - sin h * sin h) = cos h"
    using s c by simp_all
  have "atan2 (sin h) (cos h) = arctan (tan h)"
    using c by (simp add: atan2_def tan_def)
  also have "\<dots> = h" using h by (simp add: arctan_tan)
  finally have t: "atan2 (sin h) (cos h) = h" .
  have "haversine 0 0 (d * 180 / (pi * 6371000)) 0 = 6371000 * 2 * h"
    by (simp only: haversine_def a r t)
  then show ?thesis
    by (simp add: h_def)
qed


lemma getDistanceTo_north:
  assumes "0 \<le> d" and "d < pi * 6371000"
  shows "getDistanceTo exact (Some origin) (north_of_origin d) = Finite d"
  using haversine_north [OF assms]
  by (simp add: getDistanceTo_def origin_def north_of_origin_def calculateDistance_exact)

subsection \<open>Distance in double precision\<close>

text \<open>
  Rounding to a double, evaluated: when \<open>x\<close> scaled by \<open>2 ^ n\<close> lies between \<open>2 ^ 52\<close>
  and \<open>2 ^ 53\<close>, the double is the scaled value rounded to an integer, scaled back.
\<close>

lemma two_powr_52_minus: "(2::real) powr of_int (52 - int n) = 2 ^ 52 / 2 ^ n"
proof -
  have "(2::real) powr (52 - real n) = 2 powr 52 / 2 powr real n"
    by (rule powr_diff)
  then show ?thesis by (simp add: powr_realpow)
qed

lemma two_powr_53_minus: "(2::real) powr of_int (52 - int n + 1) = 2 ^ 53 / 2 ^ n"
proof -
  have "(2::real) powr (53 - real n) = 2 powr 53 / 2 powr real n"
    by (rule powr_diff)
  moreover have "real_of_int (52 - int n + 1) = 53 - real n" by simp
  ultimately show ?thesis by (simp only: powr_realpow) (simp add: powr_realpow)
qed

lemma two_powr_minus: "(2::real) powr of_int (- int n) = 1 / 2 ^ n"
proof -
  have "(2::real) powr (- real n) = inverse (2 powr real n)"
    by (rule powr_minus)
  then show ?thesis by (simp add: powr_realpow inverse_eq_divide)
qed

lemma double_at:
  assumes "2 ^ 52 \<le> \<bar>x\<bar> * 2 ^ n" and "\<bar>x\<bar> * 2 ^ n < 2 ^ 53"
      and "round_even (x * 2 ^ n) = m"
  shows "double x = of_int m / 2 ^ n"
proof -
  have x0: "x \<noteq> 0" using assms(1) by auto
  then have xp: "0 < \<bar>x\<bar>" by simp
  have "2 powr of_int (52 - int n) \<le> \<bar>x\<bar>"
    using assms(1) by (simp only: two_powr_52_minus) (simp add: field_simps)
  moreover have "\<bar>x\<bar> < 2 powr of_int (52 - int n + 1)"
    using assms(2) by (simp only: two_powr_53_minus) (simp add: field_simps)
  ultimately have "\<lfloor>log 2 \<bar>x\<bar>\<rfloor> = 52 - int n"
    using floor_log_eq_powr_iff [of "\<bar>x\<bar>" 2 "52 - int n"] xp by simp
  then have e: "\<lfloor>log 2 \<bar>x\<bar>\<rfloor> - 52 = - int n" by simp
  have "double x = of_int (round_even (x / 2 powr of_int (- int n))) * 2 powr of_int (- int n)"
    using x0 by (simp only: double_def e Let_def if_False)
  also have "\<dots> = of_int (round_even (x * 2 ^ n)) / 2 ^ n"
    by (simp only: two_powr_minus) simp
  finally show ?thesis by (simp only: assms(3))
qed

text \<open>
  The roundings on the way from the points \<open>(2.5, 0)\<close> and \<open>(-2.5, 180)\<close> to \<open>a\<close>.
\<close>

lemma rounding_1: "double (5 / 2 * PI_double) = 8842797190035550 / 2 ^ 50"
proof -
  have "round_even (5 / 2 * PI_double * 2 ^ 50) = 8842797190035550"
    by (simp add: PI_double_def round_even_def)
  from double_at [OF _ _ this] show ?thesis
    by (simp add: PI_double_def)
qed

lemma rounding_2: "double (8842797190035550 / 2 ^ 50 / 180) = 6288211335136391 / 2 ^ 57"
proof -
  have "round_even (8842797190035550 / 2 ^ 50 / 180 * 2 ^ 57) = 6288211335136391"
    by (simp add: round_even_def)
  from double_at [OF _ _ this] show ?thesis
    by simp
qed

lemma rounding_3: "double (- (5 / 2) * PI_double) = - 8842797190035550 / 2 ^ 50"
proof -
  have "round_even (- (5 / 2) * PI_double * 2 ^ 50) = - 8842797190035550"
    by (simp add: PI_double_def round_even_def)
  from double_at [OF _ _ this] show ?thesis
    by (simp add: PI_double_def)
qed

lemma rounding_4: "double (- 8842797190035550 / 2 ^ 50 / 180) = - 6288211335136391 / 2 ^ 57"
proof -
  have "round_even (- 8842797190035550 / 2 ^ 50 / 180 * 2 ^ 57) = - 6288211335136391"
    by (simp add: round_even_def)
  from double_at [OF _ _ this] show ?thesis
    by simp
qed

lemma rounding_5: "double (- 5) = - 5"
proof -
  have "round_even (- 5 * 2 ^ 50) = - 5629499534213120"
    by (simp add: round_even_def)
  from double_at [OF _ _ this] show ?thesis
    by simp
qed

lemma rounding_6: "double (- 5 * PI_double) = - 8842797190035550 / 2 ^ 49"
proof -
  have "round_even (- 5 * PI_double * 2 ^ 49) = - 8842797190035550"
    by (simp add: PI_double_def round_even_def)
  from double_at [OF _ _ this] show ?thesis
    by (simp add: PI_double_def)
qed

lemma rounding_7: "double (- 8842797190035550 / 2 ^ 49 / 180) = - 6288211335136391 / 2 ^ 56"
proof -
  have "round_even (- 8842797190035550 / 2 ^ 49 / 180 * 2 ^ 56) = - 6288211335136391"
    by (simp add: round_even_def)
  from double_at [OF _ _ this] show ?thesis
    by simp
qed

lemma rounding_8: "double (- 6288211335136391 / 2 ^ 56 / 2) = - 6288211335136391 / 2 ^ 57"
proof -
  have "round_even (- 6288211335136391 / 2 ^ 56 / 2 * 2 ^ 57) = - 6288211335136391"
    by (simp add: round_even_def)
  from double_at [OF _ _ this] show ?thesis
    by simp
qed

lemma rounding_9: "double 180 = 180"
proof -
  have "round_even (180 * 2 ^ 45) = 6333186975989760"
    by (simp add: round_even_def)
  from double_at [OF _ _ this] show ?thesis
    by simp
qed

lemma rounding_10: "double (180 * PI_double) = 4974073419394997 / 2 ^ 43"
proof -
  have "round_even (180 * PI_double * 2 ^ 43) = 4974073419394997"
    by (simp add: PI_double_def round_even_def)
  from double_at [OF _ _ this] show ?thesis
    by (simp add: PI_double_def)
qed

lemma rounding_11: "double (4974073419394997 / 2 ^ 43 / 180) = PI_double"
proof -
  have "round_even (4974073419394997 / 2 ^ 43 / 180 * 2 ^ 51) = 7074237752028440"
    by (simp add: round_even_def)
  from double_at [OF _ _ this] show ?thesis
    by (simp add: PI_double_def)
qed

lemma rounding_12: "double (PI_double / 2) = 884279719003555 / 2 ^ 49"
proof -
  have "round_even (PI_double / 2 * 2 ^ 52) = 7074237752028440"
    by (simp add: PI_double_def round_even_def)
  from double_at [OF _ _ this] show ?thesis
    by (simp add: PI_double_def)
qed

lemma rounding_13: "double (- 6286216213909009 / 2 ^ 57 * (- 6286216213909009 / 2 ^ 57))
              = 8774428803096094 / 2 ^ 62"
proof -
  have "round_even (- 6286216213909009 / 2 ^ 57 * (- 6286216213909009 / 2 ^ 57) * 2 ^ 62)
          = 8774428803096094"
    by (simp add: round_even_def)
  from double_at [OF _ _ this] show ?thesis
    by simp
qed

lemma rounding_14: "double (8998626396882423 / 2 ^ 53 * (8998626396882423 / 2 ^ 53))
              = 8990061698484946 / 2 ^ 53"
proof -
  have "round_even (8998626396882423 / 2 ^ 53 * (8998626396882423 / 2 ^ 53) * 2 ^ 53)
          = 8990061698484946"
    by (simp add: round_even_def)
  from double_at [OF _ _ this] show ?thesis
    by simp
qed

lemma rounding_15: "double (8990061698484946 / 2 ^ 53) = 8990061698484946 / 2 ^ 53"
proof -
  have "round_even (8990061698484946 / 2 ^ 53 * 2 ^ 53) = 8990061698484946"
    by (simp add: round_even_def)
  from double_at [OF _ _ this] show ?thesis
    by simp
qed

lemma rounding_16: "double (8774428803096094 / 2 ^ 62 + 8990061698484946 / 2 ^ 53)
              = 4503599627370497 / 2 ^ 52"
proof -
  have "round_even ((8774428803096094 / 2 ^ 62 + 8990061698484946 / 2 ^ 53) * 2 ^ 52)
          = 4503599627370497"
    by (simp add: round_even_def)
  from double_at [OF _ _ this] show ?thesis
    by simp
qed

lemma rounding_17: "double (1 - 4503599627370497 / 2 ^ 52) = - 1 / 2 ^ 52"
proof -
  have "round_even ((1 - 4503599627370497 / 2 ^ 52) * 2 ^ 104) = - 4503599627370496"
    by (simp add: round_even_def)
  from double_at [OF _ _ this] show ?thesis
    by simp
qed

text \<open>
  Claim C8 asks that the distance be never negative and the same in both directions. The
  code does not clamp \<open>a\<close>. In double precision, on an engine whose sine and cosine
  return the values assumed below, the points \<open>(2.5, 0)\<close> and \<open>(-2.5, 180)\<close>, which
  lie opposite each other on the globe, give \<open>a = 1 + 2 ^ -52\<close>; the square root of
  \<open>1 - a\<close> is \<^verbatim>\<open>NaN\<close>, and both copies of \<^verbatim>\<open>calculateDistance\<close> return \<^verbatim>\<open>NaN\<close>,
  which is not \<open>>= 0\<close> and is not \<open>==\<close> to the distance taken the other way round.
\<close>

theorem calculateDistance_antipodal_NaN:
  assumes "sn (- 6288211335136391 / 2 ^ 57) = - 6286216213909009 / 2 ^ 57"
      and "sn (884279719003555 / 2 ^ 49) = 1"
      and "cs (6288211335136391 / 2 ^ 57) = 8998626396882423 / 2 ^ 53"
      and "cs (- 6288211335136391 / 2 ^ 57) = 8998626396882423 / 2 ^ 53"
  shows "calculateDistance (ieee sn cs atn) (5 / 2) 0 (- (5 / 2)) 180 = NaN
       \<and> calculateDistance_map (ieee sn cs atn) (5 / 2) 0 (- (5 / 2)) 180 = NaN
       \<and> \<not> js_nonneg (calculateDistance (ieee sn cs atn) (5 / 2) 0 (- (5 / 2)) 180)
       \<and> \<not> js_equal (calculateDistance (ieee sn cs atn) (5 / 2) 0 (- (5 / 2)) 180)
                      (calculateDistance (ieee sn cs atn) (- (5 / 2)) 180 (5 / 2) 0)"
proof -
  define ar where "ar = ieee sn cs atn"
  have sel: "rd ar = double" "Math_PI ar = PI_double" "Math_sin ar = sn" "Math_cos ar = cs"
    by (simp_all add: ar_def ieee_def)
  have p1: "rd ar (rd ar (5 / 2 * Math_PI ar) / 180) = 6288211335136391 / 2 ^ 57"
    by (simp only: sel rounding_1 rounding_2)
  have p2: "rd ar (rd ar (- (5 / 2) * Math_PI ar) / 180) = - 6288211335136391 / 2 ^ 57"
    by (simp only: sel rounding_3 rounding_4)
  have "- (5 / 2) - 5 / 2 = (- 5::real)" by simp
  then have d1: "rd ar (rd ar (rd ar (- (5 / 2) - 5 / 2) * Math_PI ar) / 180)
                   = - 6288211335136391 / 2 ^ 56"
    by (simp only: sel rounding_5 rounding_6 rounding_7)
  have "180 - 0 = (180::real)" by simp
  then have d2: "rd ar (rd ar (rd ar (180 - 0) * Math_PI ar) / 180) = PI_double"
    by (simp only: sel rounding_9 rounding_10 rounding_11)
  have h1: "rd ar (- 6288211335136391 / 2 ^ 56 / 2) = - 6288211335136391 / 2 ^ 57"
    by (simp only: sel rounding_8)
  have h2: "rd ar (PI_double / 2) = 884279719003555 / 2 ^ 49"
    by (simp only: sel rounding_12)
  have "8990061698484946 / 2 ^ 53 * 1 = (8990061698484946 / 2 ^ 53 :: real)" by simp
  then have a: "rd ar
          (rd ar (sn (- 6288211335136391 / 2 ^ 57) * sn (- 6288211335136391 / 2 ^ 57))
           + rd ar (rd ar (rd ar (cs (6288211335136391 / 2 ^ 57)
                                  * cs (- 6288211335136391 / 2 ^ 57))
                           * sn (884279719003555 / 2 ^ 49))
                    * sn (884279719003555 / 2 ^ 49)))
        = 4503599627370497 / 2 ^ 52"
    by (simp only: assms sel rounding_13 rounding_14 rounding_15 rounding_16)
  have n: "rd ar (1 - 4503599627370497 / 2 ^ 52) < 0"
    by (simp only: sel rounding_17) simp
  have m: "calculateDistance ar (5 / 2) 0 (- (5 / 2)) 180 = NaN"
    unfolding calculateDistance_def Let_def
    by (simp only: p1 p2 d1 d2 h1 h2 sel(3,4) a Math_sqrt_def n if_True)
       (simp split: distance.splits)
  have c: "calculateDistance_map ar (5 / 2) 0 (- (5 / 2)) 180 = NaN"
    unfolding calculateDistance_map_def Let_def
    by (simp only: p1 p2 d1 d2 h1 h2 sel(3,4) a Math_sqrt_def n if_True)
       (simp split: distance.splits)
  from m c show ?thesis by (simp add: ar_def)
qed

text \<open>The engine of the fixtures returns the four values.\<close>

theorem calculateDistance_antipodal_NaN_witness:
  "libm_sin (- 6288211335136391 / 2 ^ 57) = - 6286216213909009 / 2 ^ 57
   \<and> libm_sin (884279719003555 / 2 ^ 49) = 1
   \<and> libm_cos (6288211335136391 / 2 ^ 57) = 8998626396882423 / 2 ^ 53
   \<and> libm_cos (- 6288211335136391 / 2 ^ 57) = 8998626396882423 / 2 ^ 53
   \<and> calculateDistance (ieee libm_sin libm_cos libm_atan2) (5 / 2) 0 (- (5 / 2)) 180 = NaN
   \<and> calculateDistance_map (ieee libm_sin libm_cos libm_atan2) (5 / 2) 0 (- (5 / 2)) 180 = NaN"
proof -
  have h: "libm_sin (- 6288211335136391 / 2 ^ 57) = - 6286216213909009 / 2 ^ 57"
    "libm_sin (884279719003555 / 2 ^ 49) = 1"
    "libm_cos (6288211335136391 / 2 ^ 57) = 8998626396882423 / 2 ^ 53"
    "libm_cos (- 6288211335136391 / 2 ^ 57) = 8998626396882423 / 2 ^ 53"
    by (simp_all add: libm_sin_def libm_cos_def)
  from calculateDistance_antipodal_NaN [OF h, of libm_atan2] h show ?thesis by blast
qed

subsection \<open>The proximity gate\<close>

text \<open>
  Claim C7. In whatever arithmetic, the player is near a treasure exactly when there is
  a position and the distance computed from it is a number less than 50. At a computed
  distance of exactly 50 the player is not near, at 49.999 the player is near. Without a
  position the distance is \<^verbatim>\<open>Infinity\<close> and the player is not near.
\<close>

theorem isNear_strictly_less_50:
  "(isNear ar userLocation t \<longleftrightarrow>
      (\<exists>loc d. userLocation = Some loc
         \<and> calculateDistance ar (position_latitude loc) (position_longitude loc)
              (latitude t) (longitude t) = Finite d \<and> d < 50))
   \<and> (getDistanceTo ar userLocation t = Finite 50 \<longrightarrow> \<not> isNear ar userLocation t)
   \<and> (getDistanceTo ar userLocation' t' = Finite 49.999 \<longrightarrow> isNear ar userLocation' t')
   \<and> getDistanceTo ar None t = Infinity
   \<and> \<not> isNear ar None t"
proof -
  have f: "\<And>d. js_less d (Finite 50) \<longleftrightarrow> (\<exists>x. d = Finite x \<and> x < 50)"
    by (case_tac d) simp_all
  have c1: "isNear ar userLocation t \<longleftrightarrow>
      (\<exists>loc d. userLocation = Some loc
         \<and> calculateDistance ar (position_latitude loc) (position_longitude loc)
              (latitude t) (longitude t) = Finite d \<and> d < 50)"
    by (cases userLocation) (simp_all add: isNear_def getDistanceTo_def f)
  have c2: "getDistanceTo ar userLocation t = Finite 50 \<longrightarrow> \<not> isNear ar userLocation t"
    by (simp add: isNear_def)
  have c3: "getDistanceTo ar userLocation' t' = Finite 49.999 \<longrightarrow> isNear ar userLocation' t'"
    by (simp add: isNear_def)
  have c4: "getDistanceTo ar None t = Infinity" "\<not> isNear ar None t"
    by (simp_all add: isNear_def getDistanceTo_def)
  from c1 c2 c3 c4 show ?thesis by blast
qed

text \<open>
  In exact arithmetic: a treasure 50 metres north of the player, and one 49.999 metres
  north.
\<close>

theorem isNear_strictly_less_50_witness:
  "getDistanceTo exact (Some origin) (north_of_origin 50) = Finite 50
   \<and> \<not> isNear exact (Some origin) (north_of_origin 50)
   \<and> getDistanceTo exact (Some origin) (north_of_origin 49.999) = Finite 49.999
   \<and> isNear exact (Some origin) (north_of_origin 49.999)"
proof -
  have b: "(50::real) < pi * 6371000" "(49.999::real) < pi * 6371000"
    using pi_ge_two by simp_all
  have d50: "getDistanceTo exact (Some origin) (north_of_origin 50) = Finite 50"
    using getDistanceTo_north [of 50] b by simp
  have d49: "getDistanceTo exact (Some origin) (north_of_origin 49.999) = Finite 49.999"
    using getDistanceTo_north [of "49.999"] b by simp
  from isNear_strictly_less_50
         [of exact "Some origin" "north_of_origin 50" "Some origin" "north_of_origin 49.999"]
  show ?thesis using d50 d49 by blast
qed

subsection \<open>The scanner\<close>

lemma replace_first_prefix:
  "prefix pat s \<Longrightarrow> replace_first pat rep s = rep @ drop (length pat) s"
  by (cases s) auto

lemma scanQRCode_cases:
  "scanQRCode targetId (Some payload) =
     (if payload = [] then NoCode
      else if \<not> prefix ''geohunt:'' payload then Malformed
      else if drop 8 payload = targetId then Match targetId
      else Mismatch)"
proof -
  have "length ''geohunt:'' = 8" by simp
  then have "prefix ''geohunt:'' payload \<Longrightarrow>
               replace_first ''geohunt:'' [] payload = drop 8 payload"
    using replace_first_prefix [of "''geohunt:''" payload "[]"] by (simp only: append_Nil)
  then show ?thesis
    by (simp add: scanQRCode_def Let_def)
qed

lemma geohunt_payload:
  "prefix ''geohunt:'' payload \<and> drop 8 payload = targetId \<longleftrightarrow> payload = ''geohunt:'' @ targetId"
proof
  assume "prefix ''geohunt:'' payload \<and> drop 8 payload = targetId"
  then obtain r where r: "payload = ''geohunt:'' @ r" and d: "drop 8 payload = targetId"
    by (auto simp: prefix_def)
  from r d show "payload = ''geohunt:'' @ targetId" by simp
next
  assume "payload = ''geohunt:'' @ targetId"
  then show "prefix ''geohunt:'' payload \<and> drop 8 payload = targetId" by simp
qed

text \<open>
  Claim C3, for a payload that is not empty. The frame is a match exactly when the payload
  is \<open>geohunt:\<close> followed by the target identifier, a mismatch exactly when it starts
  with \<open>geohunt:\<close> and the rest differs from the target, and malformed exactly when it
  does not start with \<open>geohunt:\<close>. A match hands on the target identifier and nothing
  else.
\<close>

theorem scanQRCode_classifies:
  assumes "payload \<noteq> []"
  shows "(scanQRCode targetId (Some payload) = Match targetId
            \<longleftrightarrow> payload = ''geohunt:'' @ targetId)
       \<and> (scanQRCode targetId (Some payload) = Mismatch
            \<longleftrightarrow> prefix ''geohunt:'' payload \<and> drop 8 payload \<noteq> targetId)
       \<and> (scanQRCode targetId (Some payload) = Malformed
            \<longleftrightarrow> \<not> prefix ''geohunt:'' payload)
       \<and> (\<forall>i. scanQRCode targetId (Some payload) = Match i \<longrightarrow> i = targetId)
       \<and> scanQRCode targetId (Some payload) \<noteq> NoCode"
  using assms geohunt_payload [of payload targetId]
  by (auto simp: scanQRCode_cases)

text \<open>The three payloads of the spec's test.\<close>

theorem scanQRCode_classifies_witness:
  "''geohunt:abc123'' \<noteq> [] \<and> ''not-a-code'' \<noteq> []
   \<and> scanQRCode ''abc123'' (Some ''geohunt:abc123'') = Match ''abc123''
   \<and> scanQRCode ''xyz789'' (Some ''geohunt:abc123'') = Mismatch
   \<and> scanQRCode ''abc123'' (Some ''not-a-code'') = Malformed"
  using scanQRCode_classifies [of "''geohunt:abc123''" "''abc123''"]
        scanQRCode_classifies [of "''geohunt:abc123''" "''xyz789''"]
        scanQRCode_classifies [of "''not-a-code''" "''abc123''"]
  by simp

text \<open>
  The empty payload does not start with \<open>geohunt:\<close>, and it is not malformed: the guard
  \<^verbatim>\<open>code && code.data\<close> treats it as no code at all, and scanning goes on.
\<close>

theorem scanQRCode_empty_payload_counterexample:
  "\<not> prefix ''geohunt:'' '''' \<and> scanQRCode ''abc123'' (Some '''') \<noteq> Malformed
   \<and> scanQRCode ''abc123'' (Some '''') = NoCode"
  by (simp add: scanQRCode_def)

subsection \<open>The experience bar\<close>

lemma smod_nonneg: "0 \<le> p \<Longrightarrow> p smod 250 = p mod (250::int)"
  by (simp add: signed_modulo_int_def sgn_if)

text \<open>
  Claim C10. The bar is filled to \<open>(totalPoints % 250) / 2.5\<close> percent and the label
  shows \<open>totalPoints % 250\<close> out of 250; an undefined total counts as 0. For a
  non-negative total the remainder is \<open>totalPoints mod 250\<close>, the fill lies between 0
  and 100, and it has period 250 and not 200, while the level rises by one with every 200
  points.
\<close>

theorem xpProgress_cycle:
  "xpProgress (Some p) = real_of_int (p smod 250) / 2.5
   \<and> xpLabel p = number_text (p smod 250) @ ''/250 XP''
   \<and> xpProgress None = 0
   \<and> (0 \<le> p \<longrightarrow>
         xpProgress (Some p) = real_of_int (p mod 250) / 2.5
       \<and> xpProgress (Some p) = real_of_int (p mod 250) / 250 * 100
       \<and> 0 \<le> xpProgress (Some p) \<and> xpProgress (Some p) < 100
       \<and> xpProgress (Some (p + 250)) = xpProgress (Some p)
       \<and> xpProgress (Some (p + 200)) \<noteq> xpProgress (Some p)
       \<and> xpLabel p = number_text (p mod 250) @ ''/250 XP'')
   \<and> level (calculateLevel (q\<lparr>totalPoints := p + 200\<rparr>))
       = level (calculateLevel (q\<lparr>totalPoints := p\<rparr>)) + 1"
proof -
  have u: "xpProgress (Some p) = real_of_int (p smod 250) / 2.5"
          "xpLabel p = number_text (p smod 250) @ ''/250 XP''"
          "xpProgress None = 0"
    by (simp_all add: xpProgress_def xpLabel_def)
  have f: "level (calculateLevel (q\<lparr>totalPoints := p + 200\<rparr>))
           = level (calculateLevel (q\<lparr>totalPoints := p\<rparr>)) + 1"
    by (simp add: level_calculateLevel)
  have g: "xpProgress (Some p) = real_of_int (p mod 250) / 2.5
       \<and> xpProgress (Some p) = real_of_int (p mod 250) / 250 * 100
       \<and> 0 \<le> xpProgress (Some p) \<and> xpProgress (Some p) < 100
       \<and> xpProgress (Some (p + 250)) = xpProgress (Some p)
       \<and> xpProgress (Some (p + 200)) \<noteq> xpProgress (Some p)
       \<and> xpLabel p = number_text (p mod 250) @ ''/250 XP''" if nn: "0 \<le> p"
  proof -
    have a: "xpProgress (Some p) = real_of_int (p mod 250) / 2.5"
      using nn by (simp add: xpProgress_def smod_nonneg)
    have "0 \<le> p mod 250" "p mod 250 < 250" by simp_all
    then have "0 \<le> real_of_int (p mod 250)" "real_of_int (p mod 250) < 250"
      by simp_all
    then have b: "0 \<le> xpProgress (Some p)" "xpProgress (Some p) < 100"
      using a by simp_all
    have c: "xpProgress (Some (p + 250)) = xpProgress (Some p)"
      using nn by (simp add: xpProgress_def smod_nonneg)
    have "(p + 200) mod 250 \<noteq> p mod 250"
    proof
      assume "(p + 200) mod 250 = p mod 250"
      then have "(p + 200 - p) mod 250 = 0"
        by (metis mod_eq_dvd_iff dvd_imp_mod_0)
      then show False by simp
    qed
    then have d: "xpProgress (Some (p + 200)) \<noteq> xpProgress (Some p)"
      using nn by (simp add: xpProgress_def smod_nonneg)
    have e: "xpLabel p = number_text (p mod 250) @ ''/250 XP''"
      using nn by (simp add: xpLabel_def smod_nonneg)
    from a b c d e show ?thesis by simp
  qed
  from u f g show ?thesis by blast
qed

text \<open>
  At 200 points the player reaches level 2 and the bar stands at 80 percent,
  \<open>200/250 XP\<close>.
\<close>

theorem xpProgress_cycle_witness:
  "(0::int) \<le> 200 \<and> xpProgress (Some 200) = 80 \<and> xpLabel 200 = ''200/250 XP''
   \<and> level (calculateLevel (alice\<lparr>totalPoints := 200\<rparr>)) = 2
   \<and> xpProgress (Some 450) = xpProgress (Some 200)"
  using xpProgress_cycle [of 200 alice] xpProgress_cycle [of 0 alice]
  by (simp add: number_text_def level_calculateLevel)


end
